theory Spec2Isabelle
  imports Complex_Main "HOL-Library.Sublist"
begin

section \<open>JavaScript values\<close>

text \<open>
  The adapters of \<^verbatim>\<open>lib/http/endpoint.js\<close> classify loosely typed values by probing
  properties. A value is a primitive, an array, an object (its readable properties, in
  order, as an association list; the first entry of a name wins) or a function.

  A function value \<open>Fun r s\<close> is described by what this code can observe of a call:
  the value \<open>r\<close> it returns, and which of two callbacks handed to it (as to the
  \<^verbatim>\<open>then\<close> of a promise) it eventually invokes: the first with \<open>v\<close>
  (\<open>Fulfilled v\<close>), the second with \<open>e\<close> (\<open>Rejected e\<close>), or neither
  (\<open>Pending\<close>). A function never invokes both callbacks, nor one of them twice, as
  a promise never does.

  Numbers are rationals (no NaN, no infinities); strings are lists of 8-bit characters,
  one per code unit.
\<close>

datatype jsval =
    Undefined
  | Null
  | Bool bool
  | Num rat
  | Str string
  | Arr "jsval list"
  | Obj "(string \<times> jsval) list"
  | Fun jsval settle
and settle =
    Fulfilled jsval
  | Rejected jsval
  | Pending

text \<open>\<^verbatim>\<open>v == null\<close>: the value is null or undefined.\<close>

definition nullish :: "jsval \<Rightarrow> bool" where
  "nullish v = (v = Undefined \<or> v = Null)"

text \<open>\<^verbatim>\<open>typeof v === 'function'\<close>.\<close>

fun is_function :: "jsval \<Rightarrow> bool" where
  "is_function (Fun r s) = True"
| "is_function v = False"

text \<open>
  Reading the property \<open>k\<close> of a value that is neither null nor undefined (on those
  the read throws, which every caller below checks first). Of the built-in properties
  only \<^verbatim>\<open>length\<close> of strings and arrays is known; any other property of a
  primitive, an array or a function reads as undefined. So the own properties of a
  function (\<^verbatim>\<open>length\<close>, its arity, and \<^verbatim>\<open>name\<close>) are not modelled.
\<close>

fun get :: "jsval \<Rightarrow> string \<Rightarrow> jsval" where
  "get (Obj ps) k = (case map_of ps k of Some v \<Rightarrow> v | None \<Rightarrow> Undefined)"
| "get (Str s) k = (if k = ''length'' then Num (of_nat (length s)) else Undefined)"
| "get (Arr xs) k = (if k = ''length'' then Num (of_nat (length xs)) else Undefined)"
| "get v k = Undefined"

text \<open>
  \<^verbatim>\<open>Object.prototype.hasOwnProperty.call(v, k)\<close> for a value that is neither null nor
  undefined and a name \<open>k\<close> that is not an array index.
\<close>

fun hasOwnProperty :: "jsval \<Rightarrow> string \<Rightarrow> bool" where
  "hasOwnProperty (Obj ps) k = (map_of ps k \<noteq> None)"
| "hasOwnProperty (Str s) k = (k = ''length'')"
| "hasOwnProperty (Arr xs) k = (k = ''length'')"
| "hasOwnProperty v k = False"

section \<open>Effects\<close>

text \<open>
  Everything the adapters do to the outside world is a call on a collaborator: the
  response, the request, the handler, the downstream continuation, the result's own
  methods, the process. A run is the list of these calls in the order they happen; the
  functions below take the trace so far and return it extended. \<open>Throw\<close> ends a run:
  nothing is appended after it.
\<close>

datatype arg = Passed | Omitted

datatype exn = TypeError | Thrown jsval

text \<open>
  The one closure this code registers as an event listener:
  \<^verbatim>\<open>() => { if (typeof result.end === 'function') result.end(); }\<close>, with the
  \<open>result\<close> it captured.
\<close>

datatype listener = EndIfFunction jsval

datatype event =
    SetHeader string string   \<comment> \<open>\<^verbatim>\<open>response.setHeader(name, value)\<close>\<close>
  | Type string               \<comment> \<open>\<^verbatim>\<open>response.type(t)\<close>\<close>
  | Status jsval              \<comment> \<open>\<^verbatim>\<open>response.status(code)\<close>\<close>
  | Send jsval                \<comment> \<open>\<^verbatim>\<open>response.send(body)\<close>\<close>
  | Handler                   \<comment> \<open>\<^verbatim>\<open>f(request, response)\<close> is called\<close>
  | Next jsval                \<comment> \<open>the downstream continuation is called with a failure\<close>
  | Success jsval             \<comment> \<open>a recording success continuation is called\<close>
  | Failure jsval             \<comment> \<open>a recording failure continuation is called\<close>
  | On string listener        \<comment> \<open>\<^verbatim>\<open>request.on(name, listener)\<close>\<close>
  | Emit string               \<comment> \<open>the request emits the named event\<close>
  | Pipe jsval arg            \<comment> \<open>\<^verbatim>\<open>result.pipe(response)\<close>\<close>
  | End jsval                 \<comment> \<open>\<^verbatim>\<open>result.end()\<close>\<close>
  | Debugger                  \<comment> \<open>the \<^verbatim>\<open>debugger\<close> statement\<close>
  | StderrWrite jsval         \<comment> \<open>\<^verbatim>\<open>process.stderr.write(inspect(error))\<close>\<close>
  | Throw exn

type_synonym trace = "event list"

type_synonym cont = "jsval \<Rightarrow> trace \<Rightarrow> trace"

section \<open>Collaborators outside the adapter\<close>

text \<open>
  Modelled from the spec: the classified-error factory \<^verbatim>\<open>../util/problem\<close> is not
  among the sources. The spec gives a classified error the stable fields
  \<open>httpCode\<close> (an integer), \<open>message\<close> (a string), \<open>problemCode\<close>,
  \<open>problemDetails\<close> and the classified marker (\<^verbatim>\<open>isProblem === true\<close>), and has the
  factory produce nothing but such objects.
\<close>

record problem =
  httpCode :: int
  message :: string
  problemCode :: jsval
  problemDetails :: jsval

definition of_problem :: "problem \<Rightarrow> jsval" where
  "of_problem p =
     Obj [(''isProblem'', Bool True),
          (''httpCode'', Num (of_int (httpCode p))),
          (''message'', Str (message p)),
          (''problemCode'', problemCode p),
          (''problemDetails'', problemDetails p)]"

text \<open>
  The three constructors the adapters call: \<^verbatim>\<open>Problem.internal.emptyResponse()\<close>,
  \<^verbatim>\<open>Problem.user.invalidHeader(details)\<close> and \<^verbatim>\<open>Problem.user.unparseable(details)\<close>.
  The module is a parameter of every function that uses it.
\<close>

record problem_module =
  internal_emptyResponse :: problem
  user_invalidHeader :: "jsval \<Rightarrow> problem"
  user_unparseable :: "jsval \<Rightarrow> problem"

text \<open>
  Modelled from the spec: one factory as the spec describes it. A user error (a request
  that is malformed or violates the protocol) is answered in the 4xx family and an
  internal error (an absent handler result) in the 5xx family; the details carry what
  the caller passed. The spec gives neither the exact codes nor the message texts: 400
  and 500 stand for the two families.
\<close>

definition Problem :: problem_module where
  "Problem =
     \<lparr> internal_emptyResponse =
         \<lparr> httpCode = 500, message = ''empty response'',
           problemCode = Num 500, problemDetails = Undefined \<rparr>,
       user_invalidHeader = (\<lambda>details.
         \<lparr> httpCode = 400, message = ''invalid header'',
           problemCode = Num 400, problemDetails = details \<rparr>),
       user_unparseable = (\<lambda>details.
         \<lparr> httpCode = 400, message = ''unparseable'',
           problemCode = Num 400, problemDetails = details \<rparr>) \<rparr>"

text \<open>
  Modelled from the spec: \<^verbatim>\<open>../util/option\<close> is not among the sources.
  \<^verbatim>\<open>Option.of(x).orElse(d)\<close> is \<open>d\<close> when no value was produced (\<open>x\<close> is null
  or undefined) and \<open>x\<close> otherwise.
\<close>

definition Option_of :: "jsval \<Rightarrow> jsval option" where
  "Option_of x = (if nullish x then None else Some x)"

definition orElse :: "jsval option \<Rightarrow> jsval \<Rightarrow> jsval" where
  "orElse m d = (case m of None \<Rightarrow> d | Some x \<Rightarrow> x)"

section \<open>The resolver: \<^verbatim>\<open>finalize\<close>\<close>

text \<open>
  Calling a method of a value. \<^verbatim>\<open>result.point()\<close> gives what the function returns;
  \<^verbatim>\<open>d.then(onFulfilled, onRejected)\<close> gives the way the function settles, by which
  one of the callbacks runs. Either call throws a TypeError (\<open>None\<close>) when the value
  is null or undefined or the property is not a function.
\<close>

definition call_point :: "jsval \<Rightarrow> jsval option" where
  "call_point result =
     (if nullish result then None
      else (case get result ''point'' of Fun d s \<Rightarrow> Some d | _ \<Rightarrow> None))"

definition call_then :: "jsval \<Rightarrow> settle option" where
  "call_then d =
     (if nullish d then None
      else (case get d ''then'' of Fun x s \<Rightarrow> Some s | _ \<Rightarrow> None))"

text \<open>
  \<^verbatim>\<open>finalize(success, failure, request, response)\<close> returns the closure
  \<^verbatim>\<open>finalizer\<close>; \<open>finalizer P success failure request response\<close> is that closure.
  \<open>request\<close> and \<open>response\<close> say whether the caller passed the two objects:
  calling \<^verbatim>\<open>on\<close> of an omitted request throws a TypeError.
\<close>

function finalizer ::
  "problem_module \<Rightarrow> cont \<Rightarrow> cont \<Rightarrow> arg \<Rightarrow> arg \<Rightarrow> jsval \<Rightarrow> trace \<Rightarrow> trace"
where
  "finalizer P success failure request response maybeResult tr =
    (let result = orElse (Option_of maybeResult) (of_problem (internal_emptyResponse P)) in
     if \<not> nullish (get result ''pipe'') then
       (case request of
          Omitted \<Rightarrow> tr @ [Throw TypeError]
        | Passed \<Rightarrow>
            (if is_function (get result ''pipe'')
             then tr @ [On ''close'' (EndIfFunction result), Pipe result response]
             else tr @ [On ''close'' (EndIfFunction result), Throw TypeError]))
     else if get result ''isExplicitPromise'' = Bool True then
       (case call_point result of
          None \<Rightarrow> tr @ [Throw TypeError]
        | Some d \<Rightarrow>
            (case call_then d of
               None \<Rightarrow> tr @ [Throw TypeError]
             | Some (Fulfilled v) \<Rightarrow> finalizer P success failure request response v tr
             | Some (Rejected e) \<Rightarrow> failure e tr
             | Some Pending \<Rightarrow> tr))
     else if \<not> nullish (get result ''then'') then
       (case call_then result of
          None \<Rightarrow> tr @ [Throw TypeError]
        | Some (Fulfilled v) \<Rightarrow> finalizer P success failure request response v tr
        | Some (Rejected e) \<Rightarrow> failure e tr
        | Some Pending \<Rightarrow> tr)
     else if get result ''isProblem'' = Bool True then failure result tr
     else success result tr)"
  by pat_completeness auto

lemma map_of_size: "map_of ps k = Some v \<Longrightarrow> size v < size (Obj ps)"
  by (induction ps) (auto split: if_splits)

lemma get_Fun_size: "get r k = Fun a s \<Longrightarrow> size (Fun a s) < size r"
  by (cases r) (auto split: option.splits if_splits dest: map_of_size)

lemma call_point_size: "call_point r = Some d \<Longrightarrow> size d < size r"
  by (auto simp: call_point_def split: if_splits jsval.splits dest!: get_Fun_size)

lemma call_then_size: "call_then d = Some (Fulfilled v) \<Longrightarrow> size v < size d"
  by (auto simp: call_then_def split: if_splits jsval.splits dest!: get_Fun_size)

lemma get_of_problem_simps:
  "get (of_problem p) ''pipe'' = Undefined"
  "get (of_problem p) ''isExplicitPromise'' = Undefined"
  "get (of_problem p) ''then'' = Undefined"
  "get (of_problem p) ''isProblem'' = Bool True"
  by (simp_all add: of_problem_def)

lemma call_then_of_problem: "call_then (of_problem p) = None"
  by (simp add: call_then_def of_problem_def)

lemma result_cases:
  "orElse (Option_of m) d = (if nullish m then d else m)"
  by (simp add: Option_of_def orElse_def)

lemma lazy_step_smaller:
  assumes "get (orElse (Option_of m) (of_problem p)) ''isExplicitPromise'' = Bool True"
    and "call_point (orElse (Option_of m) (of_problem p)) = Some d"
    and "call_then d = Some (Fulfilled v)"
  shows "size v < size m"
proof (cases "nullish m")
  case True
  with assms(1) show ?thesis
    by (simp add: result_cases get_of_problem_simps)
next
  case False
  with assms(2) have "size d < size m"
    by (simp add: result_cases call_point_size)
  moreover from assms(3) have "size v < size d"
    by (rule call_then_size)
  ultimately show ?thesis by simp
qed

lemma deferred_step_smaller:
  assumes "call_then (orElse (Option_of m) (of_problem p)) = Some (Fulfilled v)"
  shows "size v < size m"
proof (cases "nullish m")
  case True
  with assms show ?thesis
    by (simp add: result_cases call_then_of_problem)
next
  case False
  with assms show ?thesis
    by (simp add: result_cases call_then_size)
qed

termination finalizer
  by (relation "measure (\<lambda>(P, success, failure, request, response, m, tr). size m)")
     (auto intro: lazy_step_smaller deferred_step_smaller)

declare finalizer.simps [simp del]

section \<open>Strings\<close>

text \<open>ASCII lower case, as Node compares header names.\<close>

definition toLowerCase :: "string \<Rightarrow> string" where
  "toLowerCase s =
     map (\<lambda>c. case map_of (zip ''ABCDEFGHIJKLMNOPQRSTUVWXYZ'' ''abcdefghijklmnopqrstuvwxyz'') c of
                 Some l \<Rightarrow> l | None \<Rightarrow> c) s"

text \<open>
  \<^verbatim>\<open>s.replace(/GMT.*$/i, 'GMT')\<close>. The pattern matches at the first position where
  \<^verbatim>\<open>GMT\<close> stands in either case and no line terminator follows up to the end of the
  string (\<^verbatim>\<open>.\<close> does not match one, and \<^verbatim>\<open>$\<close> is the end of the input); the
  match runs to the end, so all of it is replaced. Without a match the string is
  unchanged.
\<close>

definition line_terminator :: "char \<Rightarrow> bool" where
  "line_terminator c = (c = CHR 0x0A \<or> c = CHR 0x0D)"

fun matches_GMT :: "string \<Rightarrow> bool" where
  "matches_GMT (g # m # t # rest) =
     ((g = CHR ''G'' \<or> g = CHR ''g'') \<and> (m = CHR ''M'' \<or> m = CHR ''m'') \<and>
      (t = CHR ''T'' \<or> t = CHR ''t'') \<and> list_all (\<lambda>c. \<not> line_terminator c) rest)"
| "matches_GMT s = False"

fun replace_GMT :: "string \<Rightarrow> string" where
  "replace_GMT [] = []"
| "replace_GMT (c # cs) = (if matches_GMT (c # cs) then ''GMT'' else c # replace_GMT cs)"

text \<open>\<^verbatim>\<open>s.split('\n')\<close>: the pieces between the separators, at least one.\<close>

fun split :: "char \<Rightarrow> string \<Rightarrow> string list" where
  "split sep [] = [[]]"
| "split sep (c # cs) =
     (if c = sep then [] # split sep cs
      else (case split sep cs of [] \<Rightarrow> [[c]] | l # ls \<Rightarrow> (c # l) # ls))"

text \<open>\<^verbatim>\<open>s.trim()\<close>: white space and line terminators are dropped at both ends.\<close>

definition white_space :: "char \<Rightarrow> bool" where
  "white_space c =
     (c \<in> set [CHR 0x09, CHR 0x0A, CHR 0x0B, CHR 0x0C, CHR 0x0D, CHR 0x20, CHR 0xA0])"

definition trim :: "string \<Rightarrow> string" where
  "trim s = rev (dropWhile white_space (rev (dropWhile white_space s)))"

text \<open>
  The string a template literal \<^verbatim>\<open>`${v}`\<close> inserts for \<open>v\<close>. The conversion of
  numbers, arrays, objects and functions is JavaScript's own and stays a parameter.
\<close>

fun template :: "(jsval \<Rightarrow> string) \<Rightarrow> jsval \<Rightarrow> string" where
  "template ToString (Str s) = s"
| "template ToString Undefined = ''undefined''"
| "template ToString Null = ''null''"
| "template ToString (Bool b) = (if b then ''true'' else ''false'')"
| "template ToString v = ToString v"

section \<open>Request and response\<close>

text \<open>
  Of a request the adapters read the headers (Node gives them under lower-case names)
  and its \<^verbatim>\<open>close\<close> event. The response is write-only, but for
  \<^verbatim>\<open>response.hasHeader(name)\<close>: a header is there once \<^verbatim>\<open>setHeader\<close> has set it,
  or \<^verbatim>\<open>type\<close> in the case of the content type; names compare without case. Nothing
  in this code removes a header.
\<close>

record request =
  headers :: "(string \<times> string) list"

fun sets_header :: "event \<Rightarrow> string option" where
  "sets_header (SetHeader name v) = Some (toLowerCase name)"
| "sets_header (Type t) = Some ''content-type''"
| "sets_header e = None"

definition hasHeader :: "trace \<Rightarrow> string \<Rightarrow> bool" where
  "hasHeader tr name = (Some (toLowerCase name) \<in> set (map sets_header tr))"

text \<open>
  \<^verbatim>\<open>request.on(name, listener)\<close> adds a listener that stays: each time the request
  emits the event, every listener added for it so far runs, in the order added.
\<close>

fun run_listener :: "listener \<Rightarrow> trace \<Rightarrow> trace" where
  "run_listener (EndIfFunction result) tr =
     (if is_function (get result ''end'') then tr @ [End result] else tr)"

fun listens :: "string \<Rightarrow> event \<Rightarrow> listener option" where
  "listens name (On n l) = (if n = name then Some l else None)"
| "listens name e = None"

definition emit :: "string \<Rightarrow> trace \<Rightarrow> trace" where
  "emit name tr = fold run_listener (List.map_filter (listens name) tr) (tr @ [Emit name])"

text \<open>
  A handler \<^verbatim>\<open>f(request, response)\<close> sees the request and the response as it stands,
  does what it does to the response, and returns a result or throws.
\<close>

datatype completion = Returns jsval | Throws jsval

type_synonym handler = "request \<Rightarrow> trace \<Rightarrow> event list \<times> completion"

section \<open>The JSON adapter: \<^verbatim>\<open>endpoint\<close>\<close>

text \<open>\<open>serialize\<close> is \<^verbatim>\<open>../util/http\<close>'s, opaque to the adapter.\<close>

definition endpoint ::
  "problem_module \<Rightarrow> (jsval \<Rightarrow> jsval) \<Rightarrow> handler \<Rightarrow> request \<Rightarrow> cont \<Rightarrow> trace \<Rightarrow> trace"
where
  "endpoint P serialize f request next tr =
    (let success = (\<lambda>result t.
           (if \<not> hasHeader t ''Content-Type'' then t @ [Type ''json''] else t)
             @ [Status (Num 200), Send (serialize result)])
     in case f request (tr @ [Handler]) of
          (evs, Throws e) \<Rightarrow> tr @ [Handler] @ evs @ [Throw (Thrown e)]
        | (evs, Returns r) \<Rightarrow>
            finalizer P success next Passed Passed r (tr @ [Handler] @ evs))"

section \<open>The OpenRosa adapter: \<^verbatim>\<open>openRosaEndpoint\<close>\<close>

text \<open>
  The clock and the date parser are luxon's: \<open>now\<close> is
  \<^verbatim>\<open>DateTime.local().toHTTP()\<close>, and \<open>parses s\<close> says whether
  \<^verbatim>\<open>DateTime.fromHTTP(s)\<close> is valid for a string \<open>s\<close>. For \<^verbatim>\<open>null\<close> luxon gives an
  invalid date.
\<close>

definition fromHTTP_isValid :: "(string \<Rightarrow> bool) \<Rightarrow> jsval \<Rightarrow> bool" where
  "fromHTTP_isValid parses x = (case x of Str s \<Rightarrow> parses s | _ \<Rightarrow> False)"

text \<open>\<^verbatim>\<open>header[name]\<close>: the header's string, or undefined.\<close>

definition header_value :: "request \<Rightarrow> string \<Rightarrow> jsval" where
  "header_value request name =
     (case map_of (headers request) name of Some v \<Rightarrow> Str v | None \<Rightarrow> Undefined)"

text \<open>
  The adapter's own failure continuation, the closure \<^verbatim>\<open>next\<close>:
  \<^verbatim>\<open>(x) => rawNext(((x != null) && (x.isProblem === true)) ? { forOpenRosa: x } : x, ...)\<close>.
\<close>

definition openRosa_next :: "cont \<Rightarrow> cont" where
  "openRosa_next rawNext x =
     rawNext (if \<not> nullish x \<and> get x ''isProblem'' = Bool True
              then Obj [(''forOpenRosa'', x)] else x)"

definition openRosaEndpoint ::
  "problem_module \<Rightarrow> string \<Rightarrow> (string \<Rightarrow> bool) \<Rightarrow> handler \<Rightarrow> request \<Rightarrow> cont
     \<Rightarrow> trace \<Rightarrow> trace"
where
  "openRosaEndpoint P now parses f request rawNext tr =
    (let next = openRosa_next rawNext;
         tr1 = tr @ [SetHeader ''Content-Language'' ''en'',
                     SetHeader ''X-OpenRosa-Version'' ''1.0'',
                     SetHeader ''X-OpenRosa-Accept-Content-Length'' (''20'' @ ''000'' @ ''000''),
                     SetHeader ''Date'' now,
                     Type ''text/xml'']
     in if header_value request ''x-openrosa-version'' \<noteq> Str ''1.0'' then
          next (of_problem (user_invalidHeader P
                  (Obj [(''field'', Str ''X-OpenRosa-Version''),
                        (''value'', header_value request ''x-openrosa-version'')]))) tr1
        else
          (let patchedDate =
                 (if nullish (header_value request ''date'') then Null
                  else (case header_value request ''date'' of
                          Str d \<Rightarrow> Str (replace_GMT d) | v \<Rightarrow> v))
           in if \<not> fromHTTP_isValid parses patchedDate then
                next (of_problem (user_invalidHeader P
                        (Obj [(''field'', Str ''Date''),
                              (''value'', header_value request ''date'')]))) tr1
              else
                (let success = (\<lambda>result t.
                       t @ [Status (get result ''code''), Send (get result ''body'')])
                 in case f request (tr1 @ [Handler]) of
                      (evs, Throws e) \<Rightarrow> tr1 @ [Handler] @ evs @ [Throw (Thrown e)]
                    | (evs, Returns r) \<Rightarrow>
                        finalizer P success next Omitted Omitted r (tr1 @ [Handler] @ evs))))"

section \<open>The error translator: \<^verbatim>\<open>sendError\<close>\<close>

text \<open>
  Modelled from the spec: the XML envelope builder \<^verbatim>\<open>../outbound/openrosa\<close> is not
  among the sources. \<^verbatim>\<open>openRosaMessage(code, {nature, message})\<close> gives a message with
  a body, opaque to the translator.
\<close>

datatype message = Message (body: jsval)

text \<open>
  \<^verbatim>\<open>details\<close> in the last branch: empty without a stack, the trimmed lines of a stack
  that is a string. Any other stack is taken to have no callable \<^verbatim>\<open>split\<close>, as the
  values of an error's stack in practice have none: a TypeError (\<open>None\<close>). An object
  that brings a \<^verbatim>\<open>split\<close> of its own is not modelled.
\<close>

definition stack_details :: "jsval \<Rightarrow> jsval option" where
  "stack_details stack =
     (if nullish stack then Some (Obj [])
      else (case stack of
              Str s \<Rightarrow> Some (Obj [(''stack'', Arr (map (\<lambda>x. Str (trim x)) (split CHR 0x0A s)))])
            | _ \<Rightarrow> None))"

text \<open>
  \<^verbatim>\<open>hasOwnProperty.call(error, ...)\<close> throws a TypeError for an error that is null or
  undefined, as reading a property of a null \<^verbatim>\<open>error.forOpenRosa\<close> or
  \<^verbatim>\<open>error.body\<close> does.
\<close>

function sendError ::
  "problem_module \<Rightarrow> (jsval \<Rightarrow> jsval \<Rightarrow> message) \<Rightarrow> (jsval \<Rightarrow> string) \<Rightarrow> jsval \<Rightarrow> trace
     \<Rightarrow> trace"
where
  "sendError P openRosaMessage ToString error tr =
    (if nullish error then tr @ [Throw TypeError]
     else if hasOwnProperty error ''forOpenRosa'' then
       (let problem = get error ''forOpenRosa'' in
        if nullish problem then tr @ [Throw TypeError]
        else tr @ [Status (get problem ''httpCode''),
                   Send (body (openRosaMessage (get problem ''code'')
                           (Obj [(''nature'', Str ''error''),
                                 (''message'', get problem ''message'')])))])
     else if get error ''isProblem'' = Bool True then
       tr @ [Status (get error ''httpCode''),
             Type ''application/json'',
             Send (Obj [(''message'', get error ''message''),
                        (''code'', get error ''problemCode''),
                        (''details'', get error ''problemDetails'')])]
     else if get error ''type'' = Str ''entity.parse.failed'' then
       (if nullish (get error ''body'') then tr @ [Throw TypeError]
        else sendError P openRosaMessage ToString
               (of_problem (user_unparseable P
                  (Obj [(''format'', Str ''json''),
                        (''rawLength'', get (get error ''body'') ''length'')]))) tr)
     else
       (case stack_details (get error ''stack'') of
          None \<Rightarrow> tr @ [Throw TypeError]
        | Some details \<Rightarrow>
            tr @ [Debugger,
                  StderrWrite error,
                  Status (Num 500),
                  Type ''application/json'',
                  Send (Obj [(''message'',
                               Str (''Completely unhandled exception: ''
                                      @ template ToString (get error ''message''))),
                             (''details'', details)])]))"
  by pat_completeness auto

lemma of_problem_shape:
  "\<not> nullish (of_problem p)"
  "\<not> hasOwnProperty (of_problem p) ''forOpenRosa''"
  "get (of_problem p) ''isProblem'' = Bool True"
  by (simp_all add: of_problem_def nullish_def)

termination sendError
  by (relation "measure (\<lambda>(P, openRosaMessage, ToString, error, tr).
        if get error ''isProblem'' = Bool True then 0 else 1)")
     (simp_all add: of_problem_shape)

declare sendError.simps [simp del]

section \<open>Observing a resolution\<close>

text \<open>
  To watch the resolver alone, the two continuations are replaced by ones that only
  record their call. \<open>resolution\<close> is what the resolver does to an empty trace then;
  \<open>replay\<close> says what any other pair of continuations makes of it.
\<close>

definition record_success :: cont where
  "record_success v t = t @ [Success v]"

definition record_failure :: cont where
  "record_failure e t = t @ [Failure e]"

definition record_next :: cont where
  "record_next x t = t @ [Next x]"

definition resolution :: "problem_module \<Rightarrow> arg \<Rightarrow> arg \<Rightarrow> jsval \<Rightarrow> trace" where
  "resolution P request response r =
     finalizer P record_success record_failure request response r []"

fun replay :: "cont \<Rightarrow> cont \<Rightarrow> trace \<Rightarrow> trace \<Rightarrow> trace" where
  "replay S F [Success v] tr = S v tr"
| "replay S F [Failure e] tr = F e tr"
| "replay S F evs tr = tr @ evs"

text \<open>
  The variants of a result, as the resolver tells them apart: by the capabilities it
  probes, in the order it probes them.
\<close>

datatype variant = Absent | Streamable | LazyUnit | Deferred | ClassifiedError | Value

definition variant_of :: "jsval \<Rightarrow> variant" where
  "variant_of r =
     (if nullish r then Absent
      else if \<not> nullish (get r ''pipe'') then Streamable
      else if get r ''isExplicitPromise'' = Bool True then LazyUnit
      else if \<not> nullish (get r ''then'') then Deferred
      else if get r ''isProblem'' = Bool True then ClassifiedError
      else Value)"

text \<open>
  A result settles when it is absent, a classified error or a plain value, or a
  deferred (or a lazy unit giving a deferred) that is rejected, or fulfilled with a
  result that settles.
\<close>

inductive settles :: "jsval \<Rightarrow> bool" where
  absent: "variant_of r = Absent \<Longrightarrow> settles r"
| classified: "variant_of r = ClassifiedError \<Longrightarrow> settles r"
| plain: "variant_of r = Value \<Longrightarrow> settles r"
| rejected: "variant_of r = Deferred \<Longrightarrow> call_then r = Some (Rejected e) \<Longrightarrow> settles r"
| fulfilled:
    "variant_of r = Deferred \<Longrightarrow> call_then r = Some (Fulfilled v) \<Longrightarrow> settles v \<Longrightarrow> settles r"
| lazy_rejected:
    "variant_of r = LazyUnit \<Longrightarrow> call_point r = Some d \<Longrightarrow> call_then d = Some (Rejected e)
       \<Longrightarrow> settles r"
| lazy_fulfilled:
    "variant_of r = LazyUnit \<Longrightarrow> call_point r = Some d \<Longrightarrow> call_then d = Some (Fulfilled v)
       \<Longrightarrow> settles v \<Longrightarrow> settles r"

code_pred settles .

fun is_success :: "event \<Rightarrow> bool" where
  "is_success (Success v) = True"
| "is_success e = False"

fun is_failure :: "event \<Rightarrow> bool" where
  "is_failure (Failure v) = True"
| "is_failure e = False"

definition successes :: "trace \<Rightarrow> nat" where
  "successes tr = length (filter is_success tr)"

definition failures :: "trace \<Rightarrow> nat" where
  "failures tr = length (filter is_failure tr)"

text \<open>Calls of the release function \<^verbatim>\<open>end\<close> in a trace.\<close>

fun is_end :: "event \<Rightarrow> bool" where
  "is_end (End r) = True"
| "is_end e = False"

definition ends :: "trace \<Rightarrow> nat" where
  "ends tr = length (filter is_end tr)"

text \<open>
  An error value that reaches the last branch of the translator: it is not null, has no
  own \<^verbatim>\<open>forOpenRosa\<close>, is not marked as classified, and is not marked as a failure to
  decode the body.
\<close>

definition unclassified :: "jsval \<Rightarrow> bool" where
  "unclassified e =
     (\<not> nullish e \<and> \<not> hasOwnProperty e ''forOpenRosa'' \<and> get e ''isProblem'' \<noteq> Bool True
      \<and> get e ''type'' \<noteq> Str ''entity.parse.failed'')"

text \<open>
  What the OpenRosa adapter does to the response before it looks at the request, and
  the two checks of its gate, on the request's headers: the version header is missing
  or not \<^verbatim>\<open>1.0\<close>; the date header is missing or, with its zone suffix rewritten, does
  not parse. \<open>invalid_header P field v\<close> is the failure the gate hands on: the
  classified error for the field and the value received, marked for OpenRosa.
\<close>

definition preamble :: "string \<Rightarrow> event list" where
  "preamble now =
     [SetHeader ''Content-Language'' ''en'',
      SetHeader ''X-OpenRosa-Version'' ''1.0'',
      SetHeader ''X-OpenRosa-Accept-Content-Length'' ''20000000'',
      SetHeader ''Date'' now,
      Type ''text/xml'']"

definition version_rejected :: "request \<Rightarrow> bool" where
  "version_rejected request = (map_of (headers request) ''x-openrosa-version'' \<noteq> Some ''1.0'')"

definition date_rejected :: "(string \<Rightarrow> bool) \<Rightarrow> request \<Rightarrow> bool" where
  "date_rejected parses request =
     (case map_of (headers request) ''date'' of
        None \<Rightarrow> True
      | Some d \<Rightarrow> \<not> parses (replace_GMT d))"

definition invalid_header :: "problem_module \<Rightarrow> string \<Rightarrow> jsval \<Rightarrow> jsval" where
  "invalid_header P field v =
     Obj [(''forOpenRosa'',
           of_problem (user_invalidHeader P (Obj [(''field'', Str field), (''value'', v)])))]"

section \<open>Example values\<close>

text \<open>
  Results: a stream with a release function, a promise fulfilled with \<^verbatim>\<open>{a: 1}\<close>, a
  promise rejected with \<open>e\<close>. Handlers: one that returns a given result, one that
  sets a content type and returns a string.
\<close>

definition a_stream :: jsval where
  "a_stream = Obj [(''pipe'', Fun Undefined Pending), (''end'', Fun Undefined Pending)]"

definition a_promise :: jsval where
  "a_promise = Obj [(''then'', Fun Undefined (Fulfilled (Obj [(''a'', Num 1)])))]"

definition rejected_with :: "jsval \<Rightarrow> jsval" where
  "rejected_with e = Obj [(''then'', Fun Undefined (Rejected e))]"

definition handler_returning :: "jsval \<Rightarrow> handler" where
  "handler_returning r request tr = ([], Returns r)"

definition csv_handler :: handler where
  "csv_handler request tr = ([SetHeader ''content-type'' ''text/csv''], Returns (Str ''a,b''))"

text \<open>
  Errors: a classified error marked for OpenRosa, a classified error, a runtime fault
  with a stack, and what the body parser raises on a malformed body.
\<close>

definition wrapped_400 :: jsval where
  "wrapped_400 =
     Obj [(''forOpenRosa'',
           Obj [(''httpCode'', Num 400), (''code'', Str ''1000''), (''message'', Str ''bad'')])]"

definition conflict_409 :: jsval where
  "conflict_409 =
     Obj [(''isProblem'', Bool True), (''httpCode'', Num 409), (''message'', Str ''conflict''),
          (''problemCode'', Num (4091 / 10)),
          (''problemDetails'', Obj [(''x'', Num 1)])]"

definition an_error :: jsval where
  "an_error =
     Obj [(''message'', Str ''boom''),
          (''stack'', Str ''Error: boom\<newline>    at f (x.js:1:1)'')]"

definition parse_failure :: jsval where
  "parse_failure =
     Obj [(''type'', Str ''entity.parse.failed''), (''body'', Obj [(''length'', Num 42)])]"

text \<open>
  An envelope builder that keeps its arguments visible; a clock reading; a date parser
  that accepts one canonical date; and three requests.
\<close>

definition xml_stub :: "jsval \<Rightarrow> jsval \<Rightarrow> message" where
  "xml_stub code opts = Message (Arr [Str ''OpenRosaResponse'', code, opts])"

definition a_now :: string where
  "a_now = ''Wed, 02 Jan 2030 10:00:00 GMT''"

definition parses_canonical :: "string \<Rightarrow> bool" where
  "parses_canonical s = (s = ''Tue, 01 Jan 2030 00:00:00 GMT'')"

definition good_request :: request where
  "good_request =
     \<lparr> headers = [(''x-openrosa-version'', ''1.0''),
                   (''date'', ''Tue, 01 Jan 2030 00:00:00 GMT+0500'')] \<rparr>"

definition no_version_request :: request where
  "no_version_request = \<lparr> headers = [(''date'', ''Tue, 01 Jan 2030 00:00:00 GMT'')] \<rparr>"

definition bad_date_request :: request where
  "bad_date_request =
     \<lparr> headers = [(''x-openrosa-version'', ''1.0''), (''date'', ''yesterday'')] \<rparr>"

section \<open>Properties of the resolver\<close>

lemma record_simps:
  "replay S F (record_success v []) tr = S v tr"
  "replay S F (record_failure e []) tr = F e tr"
  by (simp_all add: record_success_def record_failure_def)

lemma finalizer_replay:
  "finalizer P S F rq rs r tr = replay S F (resolution P rq rs r) tr"
  unfolding resolution_def
proof (induction P S F rq rs r tr rule: finalizer.induct)
  case (1 P success failure request response maybeResult tr)
  define result where
    "result = orElse (Option_of maybeResult) (of_problem (internal_emptyResponse P))"
  note L = finalizer.simps [of P success failure request response maybeResult tr,
      unfolded Let_def, folded result_def]
  note R = finalizer.simps [of P record_success record_failure request response maybeResult "[]",
      unfolded Let_def, folded result_def]
  note IH = 1 [OF result_def]
  show ?case
  proof (cases "\<not> nullish (get result ''pipe'')")
    case True
    then show ?thesis
      by (subst L, subst R) (simp split: arg.splits)
  next
    case nopipe: False
    show ?thesis
    proof (cases "get result ''isExplicitPromise'' = Bool True")
      case True
      show ?thesis
        apply (subst L, subst R)
        using nopipe True IH(1)
        apply (simp add: record_simps split: option.splits settle.splits)
        done
    next
      case notlazy: False
      show ?thesis
      proof (cases "\<not> nullish (get result ''then'')")
        case True
        show ?thesis
          apply (subst L, subst R)
          using nopipe notlazy True IH(2)
          apply (simp add: record_simps split: option.splits settle.splits)
          done
      next
        case False
        then show ?thesis
          apply (subst L, subst R)
          using nopipe notlazy
          apply (simp add: record_simps)
          done
      qed
    qed
  qed
qed

lemma nullish_simps [simp]:
  "nullish Undefined" "nullish Null" "\<not> nullish (Bool b)" "\<not> nullish (Num n)"
  "\<not> nullish (Str s)" "\<not> nullish (Arr xs)" "\<not> nullish (Obj ps)" "\<not> nullish (Fun x y)"
  by (simp_all add: nullish_def)

lemma variant_of_iff:
  "variant_of r = Absent \<longleftrightarrow> nullish r"
  "variant_of r = Streamable \<longleftrightarrow> \<not> nullish r \<and> \<not> nullish (get r ''pipe'')"
  "variant_of r = LazyUnit \<longleftrightarrow>
     \<not> nullish r \<and> nullish (get r ''pipe'') \<and> get r ''isExplicitPromise'' = Bool True"
  "variant_of r = Deferred \<longleftrightarrow>
     \<not> nullish r \<and> nullish (get r ''pipe'') \<and> get r ''isExplicitPromise'' \<noteq> Bool True
       \<and> \<not> nullish (get r ''then'')"
  "variant_of r = ClassifiedError \<longleftrightarrow>
     \<not> nullish r \<and> nullish (get r ''pipe'') \<and> get r ''isExplicitPromise'' \<noteq> Bool True
       \<and> nullish (get r ''then'') \<and> get r ''isProblem'' = Bool True"
  "variant_of r = Value \<longleftrightarrow>
     \<not> nullish r \<and> nullish (get r ''pipe'') \<and> get r ''isExplicitPromise'' \<noteq> Bool True
       \<and> nullish (get r ''then'') \<and> get r ''isProblem'' \<noteq> Bool True"
  by (simp_all add: variant_of_def)

lemma finalizer_Absent:
  "variant_of r = Absent \<Longrightarrow>
   finalizer P S F rq rs r tr = F (of_problem (internal_emptyResponse P)) tr"
  by (subst finalizer.simps)
     (simp add: Let_def result_cases variant_of_iff get_of_problem_simps)

lemma finalizer_ClassifiedError:
  "variant_of r = ClassifiedError \<Longrightarrow> finalizer P S F rq rs r tr = F r tr"
  by (subst finalizer.simps) (simp add: Let_def result_cases variant_of_iff)

lemma finalizer_Value:
  "variant_of r = Value \<Longrightarrow> finalizer P S F rq rs r tr = S r tr"
  by (subst finalizer.simps) (simp add: Let_def result_cases variant_of_iff)

lemma finalizer_Streamable:
  "variant_of r = Streamable \<Longrightarrow>
   finalizer P S F rq rs r tr =
     (case rq of
        Omitted \<Rightarrow> tr @ [Throw TypeError]
      | Passed \<Rightarrow>
          (if is_function (get r ''pipe'')
           then tr @ [On ''close'' (EndIfFunction r), Pipe r rs]
           else tr @ [On ''close'' (EndIfFunction r), Throw TypeError]))"
  by (subst finalizer.simps) (simp add: Let_def result_cases variant_of_iff)

lemma finalizer_Deferred:
  "variant_of r = Deferred \<Longrightarrow>
   finalizer P S F rq rs r tr =
     (case call_then r of
        None \<Rightarrow> tr @ [Throw TypeError]
      | Some (Fulfilled v) \<Rightarrow> finalizer P S F rq rs v tr
      | Some (Rejected e) \<Rightarrow> F e tr
      | Some Pending \<Rightarrow> tr)"
  by (subst finalizer.simps) (simp add: Let_def result_cases variant_of_iff)

lemma finalizer_LazyUnit:
  "variant_of r = LazyUnit \<Longrightarrow>
   finalizer P S F rq rs r tr =
     (case call_point r of
        None \<Rightarrow> tr @ [Throw TypeError]
      | Some d \<Rightarrow>
          (case call_then d of
             None \<Rightarrow> tr @ [Throw TypeError]
           | Some (Fulfilled v) \<Rightarrow> finalizer P S F rq rs v tr
           | Some (Rejected e) \<Rightarrow> F e tr
           | Some Pending \<Rightarrow> tr))"
  by (subst finalizer.simps) (simp add: Let_def result_cases variant_of_iff)

lemma resolution_settles:
  "settles r \<Longrightarrow>
   (\<exists>v. resolution P rq rs r = [Success v]) \<or> (\<exists>e. resolution P rq rs r = [Failure e])"
  unfolding resolution_def
  by (induction r rule: settles.induct)
     (simp_all add: finalizer_Absent finalizer_ClassifiedError finalizer_Value
        finalizer_Deferred finalizer_LazyUnit record_success_def record_failure_def)

lemma resolution_at_most_one:
  "successes (resolution P rq rs r) + failures (resolution P rq rs r) \<le> 1"
  unfolding resolution_def
proof (induction P record_success record_failure rq rs r "[] :: trace" rule: finalizer.induct)
  case (1 P request response maybeResult)
  show ?case
  proof (cases "variant_of maybeResult")
    case Absent
    then show ?thesis
      by (simp add: finalizer_Absent record_failure_def successes_def failures_def)
  next
    case Streamable
    then show ?thesis
      by (simp add: finalizer_Streamable successes_def failures_def split: arg.splits)
  next
    case LazyUnit
    then have "\<not> nullish maybeResult" "nullish (get maybeResult ''pipe'')"
      "get maybeResult ''isExplicitPromise'' = Bool True"
      by (simp_all add: variant_of_iff)
    with 1(1) LazyUnit show ?thesis
      by (auto simp add: finalizer_LazyUnit result_cases record_failure_def successes_def
           failures_def split: option.splits settle.splits)
  next
    case Deferred
    then have "\<not> nullish maybeResult" "nullish (get maybeResult ''pipe'')"
      "get maybeResult ''isExplicitPromise'' \<noteq> Bool True"
      "\<not> nullish (get maybeResult ''then'')"
      by (simp_all add: variant_of_iff)
    with 1(2) Deferred show ?thesis
      by (auto simp add: finalizer_Deferred result_cases record_failure_def successes_def
           failures_def split: option.splits settle.splits)
  next
    case ClassifiedError
    then show ?thesis
      by (simp add: finalizer_ClassifiedError record_failure_def successes_def failures_def)
  next
    case Value
    then show ?thesis
      by (simp add: finalizer_Value record_success_def successes_def failures_def)
  qed
qed

lemma a_promise_settles: "settles a_promise"
  by (rule settles.fulfilled [where v = "Obj [(''a'', Num 1)]"])
     (simp_all add: a_promise_def variant_of_def call_then_def settles.plain)

lemma resolution_a_promise:
  "resolution P Passed Passed a_promise = [Success (Obj [(''a'', Num 1)])]"
  by (simp add: resolution_def a_promise_def finalizer_Deferred finalizer_Value variant_of_def
        call_then_def record_success_def)

lemma resolution_csv:
  "resolution P Passed Passed (Str ''a,b'') = [Success (Str ''a,b'')]"
  by (simp add: resolution_def finalizer_Value variant_of_def record_success_def)

lemma resolution_rejected:
  "resolution P rq rs (rejected_with e) = [Failure e]"
  by (simp add: resolution_def rejected_with_def finalizer_Deferred variant_of_def
        call_then_def record_failure_def)

section \<open>Properties of the close event\<close>

lemma listeners_run_listener:
  "List.map_filter (listens name) (run_listener l t) = List.map_filter (listens name) t"
  by (cases l) (simp add: List.map_filter_def)

lemma listeners_fold:
  "List.map_filter (listens name) (fold run_listener ls t) = List.map_filter (listens name) t"
  by (induction ls arbitrary: t) (simp_all add: listeners_run_listener)

lemma listeners_emit:
  "List.map_filter (listens name) (emit name tr) = List.map_filter (listens name) tr"
  by (simp add: emit_def listeners_fold) (simp add: List.map_filter_def)

lemma ends_emit:
  assumes "List.map_filter (listens name) tr = [EndIfFunction r]"
  shows "ends (emit name tr) = ends tr + (if is_function (get r ''end'') then 1 else 0)"
  using assms by (simp add: emit_def ends_def)

lemma closes_invariant:
  assumes "List.map_filter (listens name) tr = [EndIfFunction r]"
  shows "List.map_filter (listens name) ((emit name ^^ n) tr) = [EndIfFunction r]
       \<and> ends ((emit name ^^ n) tr) = ends tr + (if is_function (get r ''end'') then n else 0)"
proof (induction n)
  case 0
  from assms show ?case by simp
next
  case (Suc n)
  then show ?case
    by (simp add: listeners_emit ends_emit)
qed

section \<open>Properties of the translator\<close>

lemma sendError_nullish:
  "nullish e \<Longrightarrow> sendError P openRosaMessage ToString e tr = tr @ [Throw TypeError]"
  by (subst sendError.simps) simp

lemma sendError_wrapped:
  "\<not> nullish e \<Longrightarrow> hasOwnProperty e ''forOpenRosa'' \<Longrightarrow> \<not> nullish (get e ''forOpenRosa'') \<Longrightarrow>
   sendError P openRosaMessage ToString e tr
     = tr @ [Status (get (get e ''forOpenRosa'') ''httpCode''),
             Send (body (openRosaMessage (get (get e ''forOpenRosa'') ''code'')
                     (Obj [(''nature'', Str ''error''),
                           (''message'', get (get e ''forOpenRosa'') ''message'')])))]"
  by (subst sendError.simps) (simp add: Let_def)

lemma sendError_problem:
  "\<not> nullish e \<Longrightarrow> \<not> hasOwnProperty e ''forOpenRosa'' \<Longrightarrow> get e ''isProblem'' = Bool True \<Longrightarrow>
   sendError P openRosaMessage ToString e tr
     = tr @ [Status (get e ''httpCode''),
             Type ''application/json'',
             Send (Obj [(''message'', get e ''message''),
                        (''code'', get e ''problemCode''),
                        (''details'', get e ''problemDetails'')])]"
  by (subst sendError.simps) simp

lemma sendError_parse_failed:
  "\<not> nullish e \<Longrightarrow> \<not> hasOwnProperty e ''forOpenRosa'' \<Longrightarrow> get e ''isProblem'' \<noteq> Bool True \<Longrightarrow>
   get e ''type'' = Str ''entity.parse.failed'' \<Longrightarrow> \<not> nullish (get e ''body'') \<Longrightarrow>
   sendError P openRosaMessage ToString e tr
     = sendError P openRosaMessage ToString
         (of_problem (user_unparseable P
            (Obj [(''format'', Str ''json''),
                  (''rawLength'', get (get e ''body'') ''length'')]))) tr"
  by (subst sendError.simps) simp

lemma sendError_unhandled:
  "\<not> nullish e \<Longrightarrow> \<not> hasOwnProperty e ''forOpenRosa'' \<Longrightarrow> get e ''isProblem'' \<noteq> Bool True \<Longrightarrow>
   get e ''type'' \<noteq> Str ''entity.parse.failed'' \<Longrightarrow>
   sendError P openRosaMessage ToString e tr
     = (case stack_details (get e ''stack'') of
          None \<Rightarrow> tr @ [Throw TypeError]
        | Some details \<Rightarrow>
            tr @ [Debugger,
                  StderrWrite e,
                  Status (Num 500),
                  Type ''application/json'',
                  Send (Obj [(''message'',
                               Str (''Completely unhandled exception: ''
                                      @ template ToString (get e ''message''))),
                             (''details'', details)])])"
  by (subst sendError.simps) simp

lemma of_problem_gets:
  "get (of_problem p) ''httpCode'' = Num (of_int (httpCode p))"
  "get (of_problem p) ''message'' = Str (message p)"
  "get (of_problem p) ''problemCode'' = problemCode p"
  "get (of_problem p) ''problemDetails'' = problemDetails p"
  by (simp_all add: of_problem_def)

section \<open>Properties of the adapters\<close>

lemma version_rejected_iff:
  "version_rejected request \<longleftrightarrow> header_value request ''x-openrosa-version'' \<noteq> Str ''1.0''"
  by (simp add: version_rejected_def header_value_def split: option.splits)

lemma date_rejected_iff:
  "date_rejected parses request \<longleftrightarrow>
     \<not> fromHTTP_isValid parses
         (if nullish (header_value request ''date'') then Null
          else (case header_value request ''date'' of Str d \<Rightarrow> Str (replace_GMT d) | v \<Rightarrow> v))"
  by (simp add: date_rejected_def header_value_def fromHTTP_isValid_def split: option.splits)

lemma openRosa_next_problem:
  "openRosa_next rawNext (of_problem p) = rawNext (Obj [(''forOpenRosa'', of_problem p)])"
  by (simp add: openRosa_next_def of_problem_shape)

lemma openRosaEndpoint_version:
  "version_rejected request \<Longrightarrow>
   openRosaEndpoint P now parses f request rawNext tr
     = rawNext (invalid_header P ''X-OpenRosa-Version''
                 (header_value request ''x-openrosa-version'')) (tr @ preamble now)"
  by (simp add: openRosaEndpoint_def Let_def version_rejected_iff openRosa_next_problem
        invalid_header_def preamble_def)

lemma openRosaEndpoint_date:
  "\<not> version_rejected request \<Longrightarrow> date_rejected parses request \<Longrightarrow>
   openRosaEndpoint P now parses f request rawNext tr
     = rawNext (invalid_header P ''Date'' (header_value request ''date'')) (tr @ preamble now)"
  unfolding date_rejected_iff
  by (simp add: openRosaEndpoint_def Let_def version_rejected_iff openRosa_next_problem
        invalid_header_def preamble_def)

lemma openRosaEndpoint_accepted:
  "\<not> version_rejected request \<Longrightarrow> \<not> date_rejected parses request \<Longrightarrow>
   openRosaEndpoint P now parses f request rawNext tr
     = (case f request (tr @ preamble now @ [Handler]) of
          (evs, Throws e) \<Rightarrow> tr @ preamble now @ [Handler] @ evs @ [Throw (Thrown e)]
        | (evs, Returns r) \<Rightarrow>
            finalizer P (\<lambda>result t. t @ [Status (get result ''code''), Send (get result ''body'')])
              (openRosa_next rawNext) Omitted Omitted r (tr @ preamble now @ [Handler] @ evs))"
  unfolding date_rejected_iff
  by (simp add: openRosaEndpoint_def Let_def version_rejected_iff preamble_def
        split: prod.splits completion.splits)

lemma replace_GMT_example:
  "replace_GMT ''Tue, 01 Jan 2030 00:00:00 GMT+0500'' = ''Tue, 01 Jan 2030 00:00:00 GMT''"
  by (simp add: line_terminator_def)

lemma endpoint_returns:
  "f request (tr @ [Handler]) = (evs, Returns r) \<Longrightarrow>
   endpoint P serialize f request next tr
     = finalizer P
         (\<lambda>result t. (if \<not> hasHeader t ''Content-Type'' then t @ [Type ''json''] else t)
                         @ [Status (Num 200), Send (serialize result)])
         next Passed Passed r (tr @ [Handler] @ evs)"
  by (simp add: endpoint_def Let_def)

lemma prefix_replay:
  assumes "\<And>v t. prefix t (S v t)" and "\<And>e t. prefix t (F e t)"
  shows "prefix tr (replay S F evs tr)"
  by (cases "(S, F, evs, tr)" rule: replay.cases) (simp_all add: assms)

lemma prefix_finalizer:
  assumes "\<And>v t. prefix t (S v t)" and "\<And>e t. prefix t (F e t)"
  shows "prefix tr (finalizer P S F rq rs r tr)"
  by (simp add: finalizer_replay prefix_replay assms)

lemma prefix_openRosa_next:
  assumes "\<And>x t. prefix t (rawNext x t)"
  shows "prefix t (openRosa_next rawNext x t)"
  by (simp add: openRosa_next_def assms)

lemma prefix_trans_append: "prefix (a @ b) c \<Longrightarrow> prefix a c"
  by (meson append_prefixD)

section \<open>The claims\<close>

text \<open>
  C1, as the code has it. The results are the values of \<^typ>\<open>jsval\<close>: every
  \<^verbatim>\<open>then\<close> among them behaves as a promise's does and runs at most one of the two
  callbacks handed to it, at most once. For these the resolver never calls both
  continuations and never calls one twice. A result that settles (absent, a classified
  error, a plain value, or a deferred or lazy unit that ends in one of these or in a
  rejection) gets exactly one call: success or failure. A streamable result gets neither
  call. When the resolver was given the request and the result's \<^verbatim>\<open>pipe\<close> is
  callable, the resolver registers the close listener and pipes the result into the
  response, and that is all it does; nothing is said here of a streamable result in a
  resolver that was not given the request, beyond that neither continuation is called.
\<close>

theorem resolver_terminal_actions:
  "successes (resolution P request response r) + failures (resolution P request response r) \<le> 1
   \<and> (settles r \<longrightarrow>
        successes (resolution P request response r)
          + failures (resolution P request response r) = 1
        \<and> (\<exists>x. (\<forall>S F tr. finalizer P S F request response r tr = S x tr)
               \<or> (\<forall>S F tr. finalizer P S F request response r tr = F x tr)))
   \<and> (variant_of r = Streamable \<longrightarrow>
        successes (resolution P request response r) = 0
          \<and> failures (resolution P request response r) = 0
          \<and> (request = Passed \<and> is_function (get r ''pipe'') \<longrightarrow>
                resolution P request response r
                  = [On ''close'' (EndIfFunction r), Pipe r response]))"
proof (intro conjI impI)
  show "successes (resolution P request response r)
          + failures (resolution P request response r) \<le> 1"
    by (rule resolution_at_most_one)
next
  assume "settles r"
  from resolution_settles [OF this, of P request response]
  show "successes (resolution P request response r)
          + failures (resolution P request response r) = 1"
    by (auto simp: successes_def failures_def)
next
  assume "settles r"
  from resolution_settles [OF this, of P request response]
  consider v where "resolution P request response r = [Success v]"
    | e where "resolution P request response r = [Failure e]"
    by blast
  then show "\<exists>x. (\<forall>S F tr. finalizer P S F request response r tr = S x tr)
               \<or> (\<forall>S F tr. finalizer P S F request response r tr = F x tr)"
  proof cases
    case 1
    then have "\<forall>S F tr. finalizer P S F request response r tr = S v tr"
      by (simp add: finalizer_replay)
    then show ?thesis by blast
  next
    case 2
    then have "\<forall>S F tr. finalizer P S F request response r tr = F e tr"
      by (simp add: finalizer_replay)
    then show ?thesis by blast
  qed
next
  assume s: "variant_of r = Streamable"
  then show "successes (resolution P request response r) = 0"
    by (simp add: resolution_def finalizer_Streamable successes_def split: arg.splits)
  from s show "failures (resolution P request response r) = 0"
    by (simp add: resolution_def finalizer_Streamable failures_def split: arg.splits)
  assume "request = Passed \<and> is_function (get r ''pipe'')"
  with s show "resolution P request response r
                  = [On ''close'' (EndIfFunction r), Pipe r response]"
    by (simp add: resolution_def finalizer_Streamable)
qed

text \<open>The theorem at a promise fulfilled with a plain value, and at a stream.\<close>

theorem resolver_terminal_actions_witness:
  "settles a_promise
   \<and> successes (resolution Problem Passed Passed a_promise)
        + failures (resolution Problem Passed Passed a_promise) = 1
   \<and> variant_of a_stream = Streamable \<and> is_function (get a_stream ''pipe'')
   \<and> resolution Problem Passed Passed a_stream
        = [On ''close'' (EndIfFunction a_stream), Pipe a_stream Passed]"
  using resolver_terminal_actions [of Problem Passed Passed a_promise]
    resolver_terminal_actions [of Problem Passed Passed a_stream]
    a_promise_settles
  by (simp add: a_stream_def variant_of_def)

text \<open>
  C1 as stated fails for a streamable result: neither continuation is called, so the
  number of calls is not one.
\<close>

theorem streamable_invokes_neither:
  "successes (resolution Problem Passed Passed a_stream)
     + failures (resolution Problem Passed Passed a_stream) \<noteq> 1"
  by (simp add: resolution_def finalizer_Streamable a_stream_def variant_of_def
        successes_def failures_def)

text \<open>
  C2. The translator looks for the OpenRosa mark before the classified marker. An error
  with an own \<^verbatim>\<open>forOpenRosa\<close> (whatever else it carries) is answered with the wrapped
  error's \<^verbatim>\<open>httpCode\<close> as status and the body of the XML envelope built with nature
  \<^verbatim>\<open>error\<close> and the wrapped error's message. An error without it whose
  \<^verbatim>\<open>isProblem\<close> is true is answered with its \<^verbatim>\<open>httpCode\<close>, as JSON, with the body
  \<^verbatim>\<open>{message, code: problemCode, details: problemDetails}\<close>. In either case that is
  the only response.
\<close>

theorem sendError_classified_branches:
  "\<not> nullish e \<Longrightarrow>
     (hasOwnProperty e ''forOpenRosa'' \<and> \<not> nullish (get e ''forOpenRosa'') \<longrightarrow>
        sendError P openRosaMessage ToString e tr
          = tr @ [Status (get (get e ''forOpenRosa'') ''httpCode''),
                  Send (body (openRosaMessage (get (get e ''forOpenRosa'') ''code'')
                          (Obj [(''nature'', Str ''error''),
                                (''message'', get (get e ''forOpenRosa'') ''message'')])))])
   \<and> (\<not> hasOwnProperty e ''forOpenRosa'' \<and> get e ''isProblem'' = Bool True \<longrightarrow>
        sendError P openRosaMessage ToString e tr
          = tr @ [Status (get e ''httpCode''),
                  Type ''application/json'',
                  Send (Obj [(''message'', get e ''message''),
                             (''code'', get e ''problemCode''),
                             (''details'', get e ''problemDetails'')])])"
  by (simp add: sendError_wrapped sendError_problem)

text \<open>The theorem at the two examples of the spec.\<close>

theorem sendError_classified_branches_witness:
  "\<not> nullish wrapped_400 \<and> hasOwnProperty wrapped_400 ''forOpenRosa''
   \<and> \<not> nullish (get wrapped_400 ''forOpenRosa'')
   \<and> sendError Problem xml_stub (\<lambda>v. ''?'') wrapped_400 []
        = [Status (Num 400),
           Send (Arr [Str ''OpenRosaResponse'', Str ''1000'',
                      Obj [(''nature'', Str ''error''), (''message'', Str ''bad'')]])]
   \<and> \<not> nullish conflict_409 \<and> \<not> hasOwnProperty conflict_409 ''forOpenRosa''
   \<and> get conflict_409 ''isProblem'' = Bool True
   \<and> sendError Problem xml_stub (\<lambda>v. ''?'') conflict_409 []
        = [Status (Num 409), Type ''application/json'',
           Send (Obj [(''message'', Str ''conflict''), (''code'', Num (4091 / 10)),
                      (''details'', Obj [(''x'', Num 1)])])]"
  using sendError_classified_branches [of wrapped_400 Problem xml_stub "\<lambda>v. ''?''" "[]"]
    sendError_classified_branches [of conflict_409 Problem xml_stub "\<lambda>v. ''?''" "[]"]
  by (simp add: wrapped_400_def conflict_409_def xml_stub_def)

text \<open>
  C3. The gate of the OpenRosa adapter, before the handler. A request whose version
  header is missing or not \<^verbatim>\<open>1.0\<close> is handed to the failure continuation with the
  invalid-header error for \<^verbatim>\<open>X-OpenRosa-Version\<close> and the value received. Otherwise a
  request whose date header is missing, or does not parse once \<^verbatim>\<open>GMT\<close> and what
  follows it is rewritten to \<^verbatim>\<open>GMT\<close>, is handed on with the invalid-header error for
  \<^verbatim>\<open>Date\<close> and the value received. Neither result depends on the handler, which is
  not called.
\<close>

theorem openRosa_validation_gate:
  "(version_rejected request \<longrightarrow>
      openRosaEndpoint P now parses f request rawNext tr
        = rawNext (invalid_header P ''X-OpenRosa-Version''
                    (header_value request ''x-openrosa-version'')) (tr @ preamble now))
   \<and> (\<not> version_rejected request \<and> date_rejected parses request \<longrightarrow>
      openRosaEndpoint P now parses f request rawNext tr
        = rawNext (invalid_header P ''Date'' (header_value request ''date''))
            (tr @ preamble now))
   \<and> (version_rejected request \<or> date_rejected parses request \<longrightarrow>
      Handler \<notin> set (openRosaEndpoint P now parses f request record_next []))"
proof (intro conjI impI)
  assume "version_rejected request"
  then show "openRosaEndpoint P now parses f request rawNext tr
        = rawNext (invalid_header P ''X-OpenRosa-Version''
                    (header_value request ''x-openrosa-version'')) (tr @ preamble now)"
    by (rule openRosaEndpoint_version)
next
  assume "\<not> version_rejected request \<and> date_rejected parses request"
  then show "openRosaEndpoint P now parses f request rawNext tr
        = rawNext (invalid_header P ''Date'' (header_value request ''date''))
            (tr @ preamble now)"
    by (simp add: openRosaEndpoint_date)
next
  assume "version_rejected request \<or> date_rejected parses request"
  then show "Handler \<notin> set (openRosaEndpoint P now parses f request record_next [])"
    by (cases "version_rejected request")
       (auto simp add: openRosaEndpoint_version openRosaEndpoint_date record_next_def
          preamble_def)
qed

text \<open>The theorem at a request without the version header and at one with a bad date.\<close>

theorem openRosa_validation_gate_witness:
  "version_rejected no_version_request
   \<and> openRosaEndpoint Problem a_now parses_canonical (handler_returning Null)
        no_version_request record_next []
       = preamble a_now @ [Next (invalid_header Problem ''X-OpenRosa-Version'' Undefined)]
   \<and> \<not> version_rejected bad_date_request \<and> date_rejected parses_canonical bad_date_request
   \<and> openRosaEndpoint Problem a_now parses_canonical (handler_returning Null)
        bad_date_request record_next []
       = preamble a_now @ [Next (invalid_header Problem ''Date'' (Str ''yesterday''))]
   \<and> \<not> date_rejected parses_canonical good_request"
  using openRosa_validation_gate [of no_version_request Problem a_now parses_canonical
      "handler_returning Null" record_next "[]"]
    openRosa_validation_gate [of bad_date_request Problem a_now parses_canonical
      "handler_returning Null" record_next "[]"]
  by (simp add: version_rejected_def date_rejected_def no_version_request_def
        bad_date_request_def good_request_def parses_canonical_def header_value_def
        record_next_def line_terminator_def)

text \<open>
  C4, as the code has it. For a streamable result with a callable \<^verbatim>\<open>pipe\<close>, a
  resolver that was given the request first registers the listener on the request's
  \<^verbatim>\<open>close\<close> event with \<^verbatim>\<open>on\<close> and then pipes the result into the response. The
  listener stays registered: after the request has emitted \<^verbatim>\<open>close\<close> \<open>n\<close> times,
  the release function \<^verbatim>\<open>end\<close> has been called \<open>n\<close> times if it is a function, and
  never otherwise. So it is called once when the request closes once, and not at all
  when the stream completes and no \<^verbatim>\<open>close\<close> is emitted.
\<close>

theorem release_once_per_close:
  "variant_of r = Streamable \<and> is_function (get r ''pipe'') \<Longrightarrow>
     finalizer P success failure Passed response r []
       = [On ''close'' (EndIfFunction r), Pipe r response]
     \<and> ends ((emit ''close'' ^^ n) (finalizer P success failure Passed response r []))
       = (if is_function (get r ''end'') then n else 0)"
proof -
  assume a: "variant_of r = Streamable \<and> is_function (get r ''pipe'')"
  then have t: "finalizer P success failure Passed response r []
       = [On ''close'' (EndIfFunction r), Pipe r response]"
    by (simp add: finalizer_Streamable)
  have "List.map_filter (listens ''close'') [On ''close'' (EndIfFunction r), Pipe r response]
          = [EndIfFunction r]"
    by (simp add: List.map_filter_def)
  from closes_invariant [OF this, of n] t show ?thesis
    by (simp add: ends_def)
qed

text \<open>The theorem at a stream, for no and for one \<^verbatim>\<open>close\<close>.\<close>

theorem release_once_per_close_witness:
  "variant_of a_stream = Streamable \<and> is_function (get a_stream ''pipe'')
   \<and> ends (finalizer Problem record_success record_failure Passed Passed a_stream []) = 0
   \<and> ends (emit ''close'' (finalizer Problem record_success record_failure Passed Passed a_stream [])) = 1"
  using release_once_per_close [of a_stream Problem record_success record_failure Passed 0]
    release_once_per_close [of a_stream Problem record_success record_failure Passed 1]
  by (simp add: a_stream_def variant_of_def ends_def)

text \<open>
  C4 as stated fails: the listener is not a one-time listener, and a request that emits
  \<^verbatim>\<open>close\<close> twice has the release function called twice.
\<close>

theorem release_twice_on_two_closes:
  "\<not> ends (emit ''close'' (emit ''close''
        (finalizer Problem record_success record_failure Passed Passed a_stream []))) \<le> 1"
  by (simp add: finalizer_Streamable a_stream_def variant_of_def emit_def ends_def
        List.map_filter_def)

text \<open>
  C5. For an absent result (null or undefined) the resolver puts
  \<^verbatim>\<open>Problem.internal.emptyResponse()\<close> in its place and calls the failure continuation
  with it, and nothing else: success is not called. In the factory as the spec describes
  it this error is of the internal family (5xx), not a not-found (404).
\<close>

theorem absent_result_fails_internal:
  "nullish maybeResult \<Longrightarrow>
     finalizer P success failure request response maybeResult tr
       = failure (of_problem (internal_emptyResponse P)) tr
     \<and> resolution P request response maybeResult
       = [Failure (of_problem (internal_emptyResponse P))]
     \<and> httpCode (internal_emptyResponse Problem) div 100 = 5"
  by (simp add: finalizer_Absent variant_of_iff resolution_def record_failure_def
        Problem_def)

text \<open>The theorem at null and at undefined.\<close>

theorem absent_result_fails_internal_witness:
  "nullish Null
   \<and> finalizer Problem record_success record_failure Passed Passed Null []
       = [Failure (of_problem (internal_emptyResponse Problem))]
   \<and> nullish Undefined
   \<and> finalizer Problem record_success record_failure Passed Passed Undefined []
       = [Failure (of_problem (internal_emptyResponse Problem))]"
  using absent_result_fails_internal
      [of Null Problem record_success record_failure Passed Passed "[]"]
    absent_result_fails_internal
      [of Undefined Problem record_success record_failure Passed Passed "[]"]
  by (simp add: record_failure_def)

text \<open>
  C6. Whatever the request and the handler, the first four things the OpenRosa adapter
  does are to set \<^verbatim>\<open>Content-Language: en\<close>, \<^verbatim>\<open>X-OpenRosa-Version: 1.0\<close>,
  \<^verbatim>\<open>X-OpenRosa-Accept-Content-Length: 20000000\<close> and \<^verbatim>\<open>Date\<close> with the current HTTP
  date; all that follows, a rejection included, comes after them. The downstream
  continuation is one that only adds to what has happened.
\<close>

theorem openRosa_headers_first:
  assumes "\<And>x t. prefix t (rawNext x t)"
  shows "prefix (tr @ [SetHeader ''Content-Language'' ''en'',
                       SetHeader ''X-OpenRosa-Version'' ''1.0'',
                       SetHeader ''X-OpenRosa-Accept-Content-Length'' ''20000000'',
                       SetHeader ''Date'' now])
           (openRosaEndpoint P now parses f request rawNext tr)"
proof -
  have "prefix (tr @ preamble now) (openRosaEndpoint P now parses f request rawNext tr)"
  proof (cases "version_rejected request")
    case True
    then show ?thesis by (simp add: openRosaEndpoint_version assms)
  next
    case v: False
    show ?thesis
    proof (cases "date_rejected parses request")
      case True
      with v show ?thesis by (simp add: openRosaEndpoint_date assms)
    next
      case False
      have "prefix (tr @ preamble now @ [Handler] @ evs)
              (finalizer P S (openRosa_next rawNext) Omitted Omitted r
                 (tr @ preamble now @ [Handler] @ evs))"
        if "\<And>v t. prefix t (S v t)" for S evs r
        using that by (intro prefix_finalizer prefix_openRosa_next assms)
      then have "prefix (tr @ preamble now)
              (finalizer P (\<lambda>result t. t @ [Status (get result ''code''), Send (get result ''body'')])
                 (openRosa_next rawNext) Omitted Omitted r
                 (tr @ preamble now @ [Handler] @ evs))" for evs r
        using prefix_trans_append [of "tr @ preamble now" "[Handler] @ evs"] by simp
      with v False show ?thesis
        by (simp add: openRosaEndpoint_accepted split: prod.splits completion.splits)
    qed
  qed
  then show ?thesis
    using prefix_trans_append [of _ "[Type ''text/xml'']"] by (simp add: preamble_def)
qed

text \<open>The theorem at a request the gate rejects.\<close>

theorem openRosa_headers_first_witness:
  "prefix [SetHeader ''Content-Language'' ''en'',
           SetHeader ''X-OpenRosa-Version'' ''1.0'',
           SetHeader ''X-OpenRosa-Accept-Content-Length'' ''20000000'',
           SetHeader ''Date'' a_now]
     (openRosaEndpoint Problem a_now parses_canonical (handler_returning Null)
        no_version_request record_next [])
   \<and> openRosaEndpoint Problem a_now parses_canonical (handler_returning Null)
        no_version_request record_next []
       = preamble a_now @ [Next (invalid_header Problem ''X-OpenRosa-Version'' Undefined)]"
proof -
  have "prefix t (record_next x t)" for x t
    by (simp add: record_next_def)
  from openRosa_headers_first [of record_next "[]" a_now Problem parses_canonical
      "handler_returning Null" no_version_request, OF this]
  show ?thesis
    by (simp add: openRosaEndpoint_version version_rejected_def no_version_request_def
          header_value_def record_next_def)
qed

text \<open>
  C7. When the handler returns a result that resolves to a plain value \<open>v\<close>, the JSON
  adapter sets the content type to \<^verbatim>\<open>json\<close> if the response has none by then, sets
  the status 200 and sends \<open>serialize v\<close>.
\<close>

theorem endpoint_plain_value:
  "f request (tr @ [Handler]) = (evs, Returns r) \<and> resolution P Passed Passed r = [Success v] \<Longrightarrow>
   endpoint P serialize f request next tr
     = (if hasHeader (tr @ [Handler] @ evs) ''Content-Type''
        then tr @ [Handler] @ evs
        else tr @ [Handler] @ evs @ [Type ''json''])
       @ [Status (Num 200), Send (serialize v)]"
  by (simp add: endpoint_returns finalizer_replay)

text \<open>
  The theorem at a handler returning a promise of \<^verbatim>\<open>{a: 1}\<close>, and at one that has set
  a content type itself.
\<close>

theorem endpoint_plain_value_witness:
  "handler_returning a_promise \<lparr> headers = [] \<rparr> [Handler] = ([], Returns a_promise)
   \<and> resolution Problem Passed Passed a_promise = [Success (Obj [(''a'', Num 1)])]
   \<and> endpoint Problem (\<lambda>v. Arr [Str ''serialized'', v]) (handler_returning a_promise)
        \<lparr> headers = [] \<rparr> record_next []
       = [Handler, Type ''json'', Status (Num 200),
          Send (Arr [Str ''serialized'', Obj [(''a'', Num 1)]])]
   \<and> endpoint Problem (\<lambda>v. Arr [Str ''serialized'', v]) csv_handler
        \<lparr> headers = [] \<rparr> record_next []
       = [Handler, SetHeader ''content-type'' ''text/csv'', Status (Num 200),
          Send (Arr [Str ''serialized'', Str ''a,b''])]"
  using endpoint_plain_value [where f = "handler_returning a_promise"
      and request = "\<lparr> headers = [] \<rparr>" and tr = "[]" and evs = "[]" and r = a_promise
      and P = Problem and v = "Obj [(''a'', Num 1)]"
      and serialize = "\<lambda>v. Arr [Str ''serialized'', v]" and ?next = record_next]
    endpoint_plain_value [where f = csv_handler
      and request = "\<lparr> headers = [] \<rparr>" and tr = "[]"
      and evs = "[SetHeader ''content-type'' ''text/csv'']" and r = "Str ''a,b''"
      and P = Problem and v = "Str ''a,b''"
      and serialize = "\<lambda>v. Arr [Str ''serialized'', v]" and ?next = record_next]
  by (simp add: resolution_a_promise resolution_csv handler_returning_def csv_handler_def
        hasHeader_def toLowerCase_def)

text \<open>
  C8, as the code has it. An error that reaches the last branch of the translator
  trips the debugger, is written to the standard error stream, and is answered with
  status 500, as JSON, with the message \<^verbatim>\<open>Completely unhandled exception: \<close> followed
  by the error's message, and with details that are empty without a stack and hold the
  trimmed lines of a stack that is a string.
\<close>

theorem sendError_unhandled_500:
  "unclassified e \<Longrightarrow>
     (nullish (get e ''stack'') \<longrightarrow>
        sendError P openRosaMessage ToString e tr
          = tr @ [Debugger, StderrWrite e, Status (Num 500), Type ''application/json'',
                  Send (Obj [(''message'',
                               Str (''Completely unhandled exception: ''
                                      @ template ToString (get e ''message''))),
                             (''details'', Obj [])])])
   \<and> (get e ''stack'' = Str s \<longrightarrow>
        sendError P openRosaMessage ToString e tr
          = tr @ [Debugger, StderrWrite e, Status (Num 500), Type ''application/json'',
                  Send (Obj [(''message'',
                               Str (''Completely unhandled exception: ''
                                      @ template ToString (get e ''message''))),
                             (''details'',
                              Obj [(''stack'', Arr (map (\<lambda>x. Str (trim x)) (split CHR 0x0A s)))])])])"
  by (auto simp add: unclassified_def sendError_unhandled stack_details_def)

text \<open>The theorem at an error with a stack and at an empty object.\<close>

theorem sendError_unhandled_500_witness:
  "unclassified an_error
   \<and> get an_error ''stack'' = Str ''Error: boom\<newline>    at f (x.js:1:1)''
   \<and> sendError Problem xml_stub (\<lambda>v. ''?'') an_error []
       = [Debugger, StderrWrite an_error, Status (Num 500), Type ''application/json'',
          Send (Obj [(''message'', Str ''Completely unhandled exception: boom''),
                     (''details'',
                      Obj [(''stack'', Arr [Str ''Error: boom'', Str ''at f (x.js:1:1)''])])])]
   \<and> unclassified (Obj []) \<and> nullish (get (Obj []) ''stack'')
   \<and> sendError Problem xml_stub (\<lambda>v. ''?'') (Obj []) []
       = [Debugger, StderrWrite (Obj []), Status (Num 500), Type ''application/json'',
          Send (Obj [(''message'', Str ''Completely unhandled exception: undefined''),
                     (''details'', Obj [])])]"
  using sendError_unhandled_500 [where e = an_error
      and s = "''Error: boom\<newline>    at f (x.js:1:1)''" and P = Problem
      and openRosaMessage = xml_stub and ToString = "\<lambda>v. ''?''" and tr = "[]"]
    sendError_unhandled_500 [where e = "Obj []" and s = "[]" and P = Problem
      and openRosaMessage = xml_stub and ToString = "\<lambda>v. ''?''" and tr = "[]"]
  by (simp add: an_error_def unclassified_def trim_def white_space_def)

text \<open>
  C8 as stated fails: the message does not start with \<^verbatim>\<open>unhandled exception: \<close>.
\<close>

theorem unhandled_message_prefix:
  "Send (Obj [(''message'', Str ''unhandled exception: boom''), (''details'', Obj [])])
     \<notin> set (sendError Problem xml_stub (\<lambda>v. ''?'') (Obj [(''message'', Str ''boom'')]) [])"
  by (simp add: sendError_unhandled stack_details_def)

text \<open>
  C9. An error marked by the body parser (\<^verbatim>\<open>type\<close> is \<^verbatim>\<open>entity.parse.failed\<close>, with
  its \<^verbatim>\<open>body\<close>), that is not null and neither marked for OpenRosa nor classified,
  makes the translator call itself with \<^verbatim>\<open>Problem.user.unparseable\<close> of the format
  \<^verbatim>\<open>json\<close> and the length of the body. That call ends in the branch of classified
  errors: the response has the status, message, code and details of that error, and
  nothing of the last branch happens. In the factory as the spec describes it the
  status is of the 4xx family.
\<close>

theorem sendError_parse_failed_4xx:
  "\<not> nullish e \<and> \<not> hasOwnProperty e ''forOpenRosa'' \<and> get e ''isProblem'' \<noteq> Bool True
     \<and> get e ''type'' = Str ''entity.parse.failed'' \<and> \<not> nullish (get e ''body'') \<Longrightarrow>
   (let q = user_unparseable P
              (Obj [(''format'', Str ''json''),
                    (''rawLength'', get (get e ''body'') ''length'')])
    in sendError P openRosaMessage ToString e tr
         = tr @ [Status (Num (of_int (httpCode q))),
                 Type ''application/json'',
                 Send (Obj [(''message'', Str (message q)),
                            (''code'', problemCode q),
                            (''details'', problemDetails q)])]
       \<and> sendError P openRosaMessage ToString e tr
           = sendError P openRosaMessage ToString (of_problem q) tr)
   \<and> Debugger \<notin> set (sendError P openRosaMessage ToString e [])
   \<and> httpCode (user_unparseable Problem d) div 100 = 4"
  by (simp add: Let_def sendError_parse_failed sendError_problem of_problem_shape
        of_problem_gets Problem_def)

text \<open>The theorem at the example of the spec.\<close>

theorem sendError_parse_failed_4xx_witness:
  "\<not> nullish parse_failure \<and> \<not> hasOwnProperty parse_failure ''forOpenRosa''
   \<and> get parse_failure ''isProblem'' \<noteq> Bool True
   \<and> get parse_failure ''type'' = Str ''entity.parse.failed''
   \<and> \<not> nullish (get parse_failure ''body'')
   \<and> sendError Problem xml_stub (\<lambda>v. ''?'') parse_failure []
       = [Status (Num 400), Type ''application/json'',
          Send (Obj [(''message'', Str ''unparseable''), (''code'', Num 400),
                     (''details'', Obj [(''format'', Str ''json''), (''rawLength'', Num 42)])])]"
  using sendError_parse_failed_4xx [where e = parse_failure and P = Problem
      and openRosaMessage = xml_stub and ToString = "\<lambda>v. ''?''" and tr = "[]"
      and d = Undefined, THEN conjunct1]
  by (simp add: parse_failure_def Problem_def Let_def)

text \<open>
  C10, as the code has it. When the handler's result resolves to a failure \<open>x\<close>, the
  OpenRosa adapter hands the downstream continuation \<^verbatim>\<open>{forOpenRosa: x}\<close> if \<open>x\<close>
  is not null and its \<^verbatim>\<open>isProblem\<close> is true, and \<open>x\<close> itself otherwise. When that
  continuation is the translator and \<open>x\<close> reaches its last branch (a runtime fault,
  say), the answer is the JSON body with status 500, not an XML envelope.
\<close>

theorem openRosa_failure_forwarding:
  "\<not> version_rejected request \<and> \<not> date_rejected parses request
     \<and> f request (tr @ preamble now @ [Handler]) = (evs, Returns r)
     \<and> resolution P Omitted Omitted r = [Failure x] \<Longrightarrow>
   openRosaEndpoint P now parses f request rawNext tr
     = rawNext (if \<not> nullish x \<and> get x ''isProblem'' = Bool True
                then Obj [(''forOpenRosa'', x)] else x)
         (tr @ preamble now @ [Handler] @ evs)
   \<and> (unclassified x \<and> stack_details (get x ''stack'') = Some details \<longrightarrow>
        openRosaEndpoint P now parses f request (sendError P openRosaMessage ToString) tr
          = tr @ preamble now @ [Handler] @ evs
              @ [Debugger, StderrWrite x, Status (Num 500), Type ''application/json'',
                 Send (Obj [(''message'',
                              Str (''Completely unhandled exception: ''
                                     @ template ToString (get x ''message''))),
                            (''details'', details)])])"
  by (auto simp add: openRosaEndpoint_accepted finalizer_replay openRosa_next_def
        unclassified_def sendError_unhandled)

text \<open>The theorem at a handler whose promise is rejected with a runtime fault.\<close>

theorem openRosa_failure_forwarding_witness:
  "\<not> version_rejected good_request \<and> \<not> date_rejected parses_canonical good_request
   \<and> handler_returning (rejected_with an_error) good_request (preamble a_now @ [Handler])
        = ([], Returns (rejected_with an_error))
   \<and> resolution Problem Omitted Omitted (rejected_with an_error) = [Failure an_error]
   \<and> openRosaEndpoint Problem a_now parses_canonical (handler_returning (rejected_with an_error))
        good_request record_next []
       = preamble a_now @ [Handler, Next an_error]
   \<and> unclassified an_error
   \<and> openRosaEndpoint Problem a_now parses_canonical (handler_returning (rejected_with an_error))
        good_request (sendError Problem xml_stub (\<lambda>v. ''?'')) []
       = preamble a_now
           @ [Handler, Debugger, StderrWrite an_error, Status (Num 500),
              Type ''application/json'',
              Send (Obj [(''message'', Str ''Completely unhandled exception: boom''),
                         (''details'',
                          Obj [(''stack'', Arr [Str ''Error: boom'', Str ''at f (x.js:1:1)''])])])]"
  using openRosa_failure_forwarding [where request = good_request
      and parses = parses_canonical and f = "handler_returning (rejected_with an_error)"
      and tr = "[]" and now = a_now and evs = "[]" and r = "rejected_with an_error"
      and P = Problem and x = an_error and rawNext = record_next
      and openRosaMessage = xml_stub and ToString = "\<lambda>v. ''?''"
      and details = "Obj [(''stack'', Arr [Str ''Error: boom'', Str ''at f (x.js:1:1)''])]"]
  by (simp add: resolution_rejected handler_returning_def version_rejected_def
        date_rejected_def good_request_def parses_canonical_def line_terminator_def
        record_next_def an_error_def unclassified_def stack_details_def trim_def
        white_space_def)

text \<open>
  C10 as stated fails for a failure value that is null: it is handed on as it is, and
  the translator throws a TypeError on it and sends nothing.
\<close>

theorem null_rejection_not_rendered:
  "openRosaEndpoint Problem a_now parses_canonical (handler_returning (rejected_with Null))
     good_request (sendError Problem xml_stub (\<lambda>v. ''?'')) []
     = preamble a_now @ [Handler, Throw TypeError]"
  by (simp add: openRosaEndpoint_accepted version_rejected_def date_rejected_def
        good_request_def parses_canonical_def line_terminator_def handler_returning_def
        finalizer_replay resolution_rejected openRosa_next_def sendError_nullish)

end
